theory Spec2Isabelle
  imports Complex_Main
begin

section \<open>Dense tensors\<close>

text \<open>
  A tensor is a shape (the sizes of its axes) and its elements in row-major order, as
  the arrays of \<^verbatim>\<open>jax.numpy\<close> are. Elements are modelled as real numbers: the
  arithmetic of the model is exact, and rounding, infinities and NaN of IEEE-754 are not
  represented.
\<close>

record tensor =
  shape :: "nat list"
  data :: "real list"

definition wf_tensor :: "tensor \<Rightarrow> bool" where
  "wf_tensor t = (length (data t) = prod_list (shape t))"

text \<open>Row-major offset of a multi-index, and the multi-index of an offset.\<close>

fun ravel :: "nat list \<Rightarrow> nat list \<Rightarrow> nat" where
  "ravel (d # ds) (i # is) = i * prod_list ds + ravel ds is"
| "ravel _ _ = 0"

fun unravel :: "nat list \<Rightarrow> nat \<Rightarrow> nat list" where
  "unravel [] n = []"
| "unravel (d # ds) n = (n div prod_list ds) # unravel ds (n mod prod_list ds)"

definition valid_index :: "nat list \<Rightarrow> nat list \<Rightarrow> bool" where
  "valid_index s idx = list_all2 (\<lambda>i d. i < d) idx s"

definition get :: "tensor \<Rightarrow> nat list \<Rightarrow> real" where
  "get t idx = data t ! ravel (shape t) idx"

text \<open>The tensor of a given shape whose element at every multi-index is given by \<open>f\<close>.\<close>

definition tabulate :: "nat list \<Rightarrow> (nat list \<Rightarrow> real) \<Rightarrow> tensor" where
  "tabulate s f = \<lparr>shape = s, data = map (\<lambda>n. f (unravel s n)) [0..<prod_list s]\<rparr>"

section \<open>Errors\<close>

datatype error =
    IndexError
  | ZeroDivisionError
  | TypeError
  | ScopeParamShapeError
  | TransposeError
  | MatmulError
  | ReshapeError
  | UnpackError

section \<open>Library operations\<close>

subsection \<open>\<^verbatim>\<open>flax.linen.Dense\<close>\<close>

record dense_params =
  kernel :: tensor
  bias :: tensor

text \<open>
  \<^verbatim>\<open>Dense(features)(x)\<close> contracts the last axis of \<open>x\<close> with the first axis of the
  kernel and adds the bias along the last axis. When it is applied to stored parameters,
  Flax first evaluates the kernel initialiser abstractly at the shape
  \<^verbatim>\<open>(x.shape[-1], features)\<close>: the initialiser divides by both sizes and raises
  \<^verbatim>\<open>ZeroDivisionError\<close> when one of them is zero, and a negative \<open>features\<close> raises
  \<^verbatim>\<open>TypeError\<close>. Flax then compares the shapes of the stored kernel and bias with
  \<^verbatim>\<open>(x.shape[-1], features)\<close> and \<^verbatim>\<open>(features,)\<close> and raises
  \<^verbatim>\<open>ScopeParamShapeError\<close> on a difference.
\<close>

definition Dense :: "int \<Rightarrow> dense_params \<Rightarrow> tensor \<Rightarrow> error + tensor" where
  "Dense features p x =
     (if shape x = [] then Inl IndexError
      else if last (shape x) = 0 then Inl ZeroDivisionError
      else if features = 0 then Inl ZeroDivisionError
      else if features < 0 then Inl TypeError
      else if shape (kernel p) = [last (shape x), nat features] \<and> shape (bias p) = [nat features]
      then Inr (tabulate (butlast (shape x) @ [nat features])
             (\<lambda>idx. sum_list (map (\<lambda>k. get x (butlast idx @ [k]) * get (kernel p) [k, last idx])
                                 [0..<last (shape x)])
                    + get (bias p) [last idx]))
      else Inl ScopeParamShapeError)"

subsection \<open>\<^verbatim>\<open>transpose\<close>, \<^verbatim>\<open>reshape\<close>, \<^verbatim>\<open>matmul\<close>, division, \<^verbatim>\<open>softmax\<close>\<close>

fun index_of :: "nat list \<Rightarrow> nat \<Rightarrow> nat" where
  "index_of [] a = 0"
| "index_of (x # xs) a = (if x = a then 0 else Suc (index_of xs a))"

text \<open>
  \<^verbatim>\<open>t.transpose(*axes)\<close>: axis \<open>k\<close> of the result is axis \<open>axes[k]\<close> of \<open>t\<close>. The axes
  must be a permutation of the axes of \<open>t\<close>.
\<close>

definition transpose_t :: "nat list \<Rightarrow> tensor \<Rightarrow> error + tensor" where
  "transpose_t axes t =
     (if sort axes = [0..<length (shape t)]
      then Inr (tabulate (map (\<lambda>a. shape t ! a) axes)
             (\<lambda>idx. get t (map (\<lambda>a. idx ! index_of axes a) [0..<length axes])))
      else Inl TransposeError)"

text \<open>
  \<^verbatim>\<open>t.reshape(*newshape)\<close> keeps the elements in row-major order. At most one entry
  of the new shape may be \<open>-1\<close>; it stands for the size of \<open>t\<close> divided by the product of
  the other entries, which must be non-zero and divide the size.
\<close>

definition reshape :: "int list \<Rightarrow> tensor \<Rightarrow> error + tensor" where
  "reshape newshape t =
     (let n = int (prod_list (shape t));
          others = filter (\<lambda>d. d \<noteq> - 1) newshape;
          p = prod_list others
      in if list_ex (\<lambda>d. d < - 1) newshape then Inl ReshapeError
         else if length others = length newshape
         then (if p = n then Inr (t\<lparr>shape := map nat newshape\<rparr>) else Inl ReshapeError)
         else if length others + 1 = length newshape
         then (if p = 0 then Inl ReshapeError
               else if n mod p = 0
               then Inr (t\<lparr>shape := map (\<lambda>d. if d = - 1 then nat (n div p) else nat d) newshape\<rparr>)
               else Inl ReshapeError)
         else Inl ReshapeError)"

text \<open>
  \<^verbatim>\<open>jnp.matmul(a, b)\<close> for operands of rank at least two: a matrix product over the
  last two axes for every index of the leading (batch) axes. Both forward functions
  call it with operands of equal batch axes; broadcasting between different batch
  axes, and operands of rank below two, do not occur there and are an error of the
  model.
\<close>

definition matmul :: "tensor \<Rightarrow> tensor \<Rightarrow> error + tensor" where
  "matmul a b =
     (let sa = shape a; sb = shape b
      in if length sa < 2 then Inl MatmulError
         else if length sb < 2 then Inl MatmulError
         else if last sa = last (butlast sb) \<and> butlast (butlast sa) = butlast (butlast sb)
         then Inr (tabulate (butlast sa @ [last sb])
                (\<lambda>idx. sum_list (map (\<lambda>k. get a (butlast idx @ [k])
                                            * get b (butlast (butlast idx) @ [k, last idx]))
                                    [0..<last sa])))
         else Inl MatmulError)"

text \<open>Division of every element by a scalar.\<close>

definition divide_t :: "tensor \<Rightarrow> real \<Rightarrow> tensor" where
  "divide_t t c = tabulate (shape t) (\<lambda>idx. get t idx / c)"

text \<open>
  \<^verbatim>\<open>softmax(t, axis=-1)\<close> subtracts from every row (the last axis) its maximum,
  exponentiates and divides by the sum of the row. The maximum of an empty row is never
  combined with an element.
\<close>

definition row_max :: "real list \<Rightarrow> real" where
  "row_max r = (case r of [] \<Rightarrow> 0 | y # ys \<Rightarrow> fold max ys y)"

definition row_of :: "tensor \<Rightarrow> nat list \<Rightarrow> real list" where
  "row_of t idx = map (\<lambda>j. get t (butlast idx @ [j])) [0..<last (shape t)]"

definition softmax :: "tensor \<Rightarrow> error + tensor" where
  "softmax t =
     (if shape t = [] then Inl IndexError
      else Inr (tabulate (shape t)
             (\<lambda>idx. exp (get t idx - row_max (row_of t idx))
                    / sum_list (map (\<lambda>y. exp (y - row_max (row_of t idx))) (row_of t idx)))))"

section \<open>Sequencing of calls that may raise\<close>

definition and_then :: "error + 'a \<Rightarrow> ('a \<Rightarrow> error + 'b) \<Rightarrow> error + 'b" where
  "and_then m f = (case m of Inl e \<Rightarrow> Inl e | Inr v \<Rightarrow> f v)"

section \<open>Single-head self-attention\<close>

text \<open>
  The module's fields; the constructor stores them as they are given. The forward call
  divides the scores by \<open>sqrt head_dim\<close>; a \<open>head_dim\<close> that is not positive never
  reaches the division, because the first projection rejects it.
\<close>

record SelfAttention =
  sa_embed_dim :: int
  sa_head_dim :: int

record SelfAttention_params =
  sa_query :: dense_params
  sa_key :: dense_params
  sa_value :: dense_params

definition SelfAttention_new :: "int \<Rightarrow> int \<Rightarrow> error + SelfAttention" where
  "SelfAttention_new embed_dim head_dim =
     Inr \<lparr>sa_embed_dim = embed_dim, sa_head_dim = head_dim\<rparr>"

definition SelfAttention_call ::
  "SelfAttention \<Rightarrow> SelfAttention_params \<Rightarrow> tensor \<Rightarrow> error + tensor \<times> tensor" where
  "SelfAttention_call self params x =
     and_then (Dense (sa_head_dim self) (sa_query params) x) (\<lambda>q.
     and_then (Dense (sa_head_dim self) (sa_key params) x) (\<lambda>k.
     and_then (Dense (sa_head_dim self) (sa_value params) x) (\<lambda>v.
     and_then (transpose_t [0, 2, 1] k) (\<lambda>kT.
     and_then (matmul q kT) (\<lambda>scores.
     and_then (softmax (divide_t scores (sqrt (real_of_int (sa_head_dim self))))) (\<lambda>attn_weights.
     and_then (matmul attn_weights v) (\<lambda>output.
     Inr (output, attn_weights))))))))"

section \<open>Multi-head attention\<close>

record MultiHeadAttention =
  mha_embed_dim :: int
  mha_num_heads :: int
  mha_head_dim :: int

record MultiHeadAttention_params =
  mha_query :: dense_params
  mha_key :: dense_params
  mha_value :: dense_params
  mha_out :: dense_params

definition MultiHeadAttention_new :: "int \<Rightarrow> int \<Rightarrow> int \<Rightarrow> error + MultiHeadAttention" where
  "MultiHeadAttention_new embed_dim num_heads head_dim =
     Inr \<lparr>mha_embed_dim = embed_dim, mha_num_heads = num_heads, mha_head_dim = head_dim\<rparr>"

text \<open>
  A projection of the input, split into heads:
  \<^verbatim>\<open>.reshape(batch_size, seq_len, num_heads, head_dim).transpose(0, 2, 1, 3)\<close>.
\<close>

definition split_heads ::
  "MultiHeadAttention \<Rightarrow> nat \<Rightarrow> nat \<Rightarrow> tensor \<Rightarrow> error + tensor" where
  "split_heads self batch_size seq_len t =
     and_then (reshape [int batch_size, int seq_len, mha_num_heads self, mha_head_dim self] t)
       (transpose_t [0, 2, 1, 3])"

text \<open>The unpacking \<^verbatim>\<open>batch_size, seq_len, _ = x.shape\<close> needs a shape of three axes.\<close>

definition unpack3 :: "nat list \<Rightarrow> error + nat \<times> nat \<times> nat" where
  "unpack3 s = (case s of [a, b, c] \<Rightarrow> Inr (a, b, c) | _ \<Rightarrow> Inl UnpackError)"

definition MultiHeadAttention_call ::
  "MultiHeadAttention \<Rightarrow> MultiHeadAttention_params \<Rightarrow> tensor \<Rightarrow> error + tensor \<times> tensor" where
  "MultiHeadAttention_call self params x =
     and_then (unpack3 (shape x)) (\<lambda>(batch_size, seq_len, _).
     and_then (Dense (mha_num_heads self * mha_head_dim self) (mha_query params) x) (\<lambda>qp.
     and_then (split_heads self batch_size seq_len qp) (\<lambda>q.
     and_then (Dense (mha_num_heads self * mha_head_dim self) (mha_key params) x) (\<lambda>kp.
     and_then (split_heads self batch_size seq_len kp) (\<lambda>k.
     and_then (Dense (mha_num_heads self * mha_head_dim self) (mha_value params) x) (\<lambda>vp.
     and_then (split_heads self batch_size seq_len vp) (\<lambda>v.
     and_then (transpose_t [0, 1, 3, 2] k) (\<lambda>kT.
     and_then (matmul q kT) (\<lambda>scores.
     and_then (softmax (divide_t scores (sqrt (real_of_int (mha_head_dim self))))) (\<lambda>attn_weights.
     and_then (matmul attn_weights v) (\<lambda>attn_output.
     and_then (transpose_t [0, 2, 1, 3] attn_output) (\<lambda>tr.
     and_then (reshape [int batch_size, int seq_len, - 1] tr) (\<lambda>merged.
     and_then (Dense (mha_embed_dim self) (mha_out params) merged) (\<lambda>output.
     Inr (output, attn_weights)))))))))))))))"

section \<open>The specification's formulas\<close>

text \<open>
  The functions of this section follow the wording of the specification, index by index.
  The theorems below compare them with what the two forward functions compute.
\<close>

text \<open>\<open>x @ W + b\<close>: element \<open>j\<close> of the projection of the row of \<open>x\<close> at the leading indices \<open>pre\<close>.\<close>

definition linear :: "dense_params \<Rightarrow> tensor \<Rightarrow> nat list \<Rightarrow> nat \<Rightarrow> real" where
  "linear p x pre j =
     (\<Sum>k<last (shape x). get x (pre @ [k]) * get (kernel p) [k, j]) + get (bias p) [j]"

text \<open>The softmax of a row \<open>s 0, \<dots>, s (n - 1)\<close> at position \<open>j\<close>.\<close>

definition softmax_fn :: "(nat \<Rightarrow> real) \<Rightarrow> nat \<Rightarrow> nat \<Rightarrow> real" where
  "softmax_fn s n j = exp (s j) / (\<Sum>l<n. exp (s l))"

definition sa_scores ::
  "SelfAttention \<Rightarrow> SelfAttention_params \<Rightarrow> tensor \<Rightarrow> nat \<Rightarrow> nat \<Rightarrow> nat \<Rightarrow> real" where
  "sa_scores self params x b i j =
     (\<Sum>d<nat (sa_head_dim self).
        linear (sa_query params) x [b, i] d * linear (sa_key params) x [b, j] d)"

definition sa_scaled ::
  "SelfAttention \<Rightarrow> SelfAttention_params \<Rightarrow> tensor \<Rightarrow> nat \<Rightarrow> nat \<Rightarrow> nat \<Rightarrow> real" where
  "sa_scaled self params x b i j =
     sa_scores self params x b i j / sqrt (real_of_int (sa_head_dim self))"

definition sa_weights ::
  "SelfAttention \<Rightarrow> SelfAttention_params \<Rightarrow> tensor \<Rightarrow> nat \<Rightarrow> nat \<Rightarrow> nat \<Rightarrow> real" where
  "sa_weights self params x b i j =
     softmax_fn (sa_scaled self params x b i) (shape x ! 1) j"

definition sa_output ::
  "SelfAttention \<Rightarrow> SelfAttention_params \<Rightarrow> tensor \<Rightarrow> nat \<Rightarrow> nat \<Rightarrow> nat \<Rightarrow> real" where
  "sa_output self params x b i d =
     (\<Sum>j<shape x ! 1. sa_weights self params x b i j * linear (sa_value params) x [b, j] d)"

text \<open>
  Multi-head attention: head \<open>h\<close> reads the features \<open>h * head_dim, \<dots>, h * head_dim + head_dim - 1\<close>
  of the three projections, and the heads' outputs are concatenated along the feature
  axis in the order of the heads before the output projection.
\<close>

definition mha_scores ::
  "MultiHeadAttention \<Rightarrow> MultiHeadAttention_params \<Rightarrow> tensor \<Rightarrow> nat \<Rightarrow> nat \<Rightarrow> nat \<Rightarrow> nat \<Rightarrow> real" where
  "mha_scores self params x b h i j =
     (\<Sum>d<nat (mha_head_dim self).
        linear (mha_query params) x [b, i] (h * nat (mha_head_dim self) + d)
        * linear (mha_key params) x [b, j] (h * nat (mha_head_dim self) + d))"

definition mha_weights ::
  "MultiHeadAttention \<Rightarrow> MultiHeadAttention_params \<Rightarrow> tensor \<Rightarrow> nat \<Rightarrow> nat \<Rightarrow> nat \<Rightarrow> nat \<Rightarrow> real" where
  "mha_weights self params x b h i j =
     softmax_fn (\<lambda>l. mha_scores self params x b h i l / sqrt (real_of_int (mha_head_dim self)))
       (shape x ! 1) j"

definition mha_head_output ::
  "MultiHeadAttention \<Rightarrow> MultiHeadAttention_params \<Rightarrow> tensor \<Rightarrow> nat \<Rightarrow> nat \<Rightarrow> nat \<Rightarrow> nat \<Rightarrow> real" where
  "mha_head_output self params x b h i d =
     (\<Sum>j<shape x ! 1. mha_weights self params x b h i j
        * linear (mha_value params) x [b, j] (h * nat (mha_head_dim self) + d))"

definition mha_concat ::
  "MultiHeadAttention \<Rightarrow> MultiHeadAttention_params \<Rightarrow> tensor \<Rightarrow> nat \<Rightarrow> nat \<Rightarrow> nat \<Rightarrow> real" where
  "mha_concat self params x b i c =
     mha_head_output self params x b (c div nat (mha_head_dim self)) i (c mod nat (mha_head_dim self))"

definition mha_output ::
  "MultiHeadAttention \<Rightarrow> MultiHeadAttention_params \<Rightarrow> tensor \<Rightarrow> nat \<Rightarrow> nat \<Rightarrow> nat \<Rightarrow> real" where
  "mha_output self params x b i e =
     (\<Sum>c<nat (mha_num_heads self * mha_head_dim self).
        mha_concat self params x b i c * get (kernel (mha_out params)) [c, e])
     + get (bias (mha_out params)) [e]"

section \<open>Parameters that fit a module\<close>

text \<open>
  The shapes that \<^verbatim>\<open>model.init\<close> gives the parameters for an input whose last axis
  has size \<open>D\<close>: a kernel of shape \<open>(D, features)\<close> and a bias of shape \<open>(features,)\<close>.
  The initialisation succeeds only when \<open>D\<close> and \<open>features\<close> are positive; the theorems
  state that separately.
\<close>

definition dense_shape :: "dense_params \<Rightarrow> nat \<Rightarrow> nat \<Rightarrow> bool" where
  "dense_shape p D F = (shape (kernel p) = [D, F] \<and> shape (bias p) = [F])"

definition sa_params_ok :: "SelfAttention \<Rightarrow> SelfAttention_params \<Rightarrow> nat \<Rightarrow> nat \<Rightarrow> bool" where
  "sa_params_ok self params D dk =
     (sa_head_dim self = int dk \<and> dense_shape (sa_query params) D dk
      \<and> dense_shape (sa_key params) D dk \<and> dense_shape (sa_value params) D dk)"

definition mha_params_ok ::
  "MultiHeadAttention \<Rightarrow> MultiHeadAttention_params \<Rightarrow> nat \<Rightarrow> nat \<Rightarrow> nat \<Rightarrow> nat \<Rightarrow> bool" where
  "mha_params_ok self params D H dk E =
     (mha_num_heads self = int H \<and> mha_head_dim self = int dk \<and> mha_embed_dim self = int E
      \<and> dense_shape (mha_query params) D (H * dk) \<and> dense_shape (mha_key params) D (H * dk)
      \<and> dense_shape (mha_value params) D (H * dk) \<and> dense_shape (mha_out params) (H * dk) E)"

section \<open>Example inputs\<close>

definition mk_dense :: "nat \<Rightarrow> nat \<Rightarrow> real list \<Rightarrow> real list \<Rightarrow> dense_params" where
  "mk_dense D F w b = \<lparr>kernel = \<lparr>shape = [D, F], data = w\<rparr>, bias = \<lparr>shape = [F], data = b\<rparr>\<rparr>"

definition zeros :: "nat list \<Rightarrow> tensor" where
  "zeros s = \<lparr>shape = s, data = replicate (prod_list s) 0\<rparr>"

text \<open>One batch of two positions with one feature each.\<close>

definition demo_x :: tensor where
  "demo_x = \<lparr>shape = [1, 2, 1], data = [0, 1]\<rparr>"

definition sa_demo :: SelfAttention where
  "sa_demo = \<lparr>sa_embed_dim = 1, sa_head_dim = 1\<rparr>"

definition sa_demo_params :: SelfAttention_params where
  "sa_demo_params =
     \<lparr>sa_query = mk_dense 1 1 [0] [1], sa_key = mk_dense 1 1 [1] [0], sa_value = mk_dense 1 1 [3] [1]\<rparr>"

definition mha_demo :: MultiHeadAttention where
  "mha_demo = \<lparr>mha_embed_dim = 1, mha_num_heads = 2, mha_head_dim = 1\<rparr>"

definition mha_demo_params :: MultiHeadAttention_params where
  "mha_demo_params =
     \<lparr>mha_query = mk_dense 1 2 [0, 0] [1, 1], mha_key = mk_dense 1 2 [1, 2] [0, 0],
      mha_value = mk_dense 1 2 [3, 5] [1, 0], mha_out = mk_dense 2 1 [1, 2] [4]\<rparr>"

text \<open>The modules of the two notebooks, with parameters of the shapes their \<^verbatim>\<open>init\<close> gives.\<close>

definition sa_notebook :: SelfAttention where
  "sa_notebook = \<lparr>sa_embed_dim = 64, sa_head_dim = 32\<rparr>"

definition sa_notebook_params :: SelfAttention_params where
  "sa_notebook_params =
     \<lparr>sa_query = \<lparr>kernel = zeros [64, 32], bias = zeros [32]\<rparr>,
      sa_key = \<lparr>kernel = zeros [64, 32], bias = zeros [32]\<rparr>,
      sa_value = \<lparr>kernel = zeros [64, 32], bias = zeros [32]\<rparr>\<rparr>"

definition mha_notebook :: MultiHeadAttention where
  "mha_notebook = \<lparr>mha_embed_dim = 64, mha_num_heads = 4, mha_head_dim = 16\<rparr>"

definition mha_notebook_params :: MultiHeadAttention_params where
  "mha_notebook_params =
     \<lparr>mha_query = \<lparr>kernel = zeros [64, 64], bias = zeros [64]\<rparr>,
      mha_key = \<lparr>kernel = zeros [64, 64], bias = zeros [64]\<rparr>,
      mha_value = \<lparr>kernel = zeros [64, 64], bias = zeros [64]\<rparr>,
      mha_out = \<lparr>kernel = zeros [64, 64], bias = zeros [64]\<rparr>\<rparr>"


definition mha_wide :: MultiHeadAttention where
  "mha_wide = \<lparr>mha_embed_dim = 3, mha_num_heads = 2, mha_head_dim = 1\<rparr>"

definition mha_wide_params :: MultiHeadAttention_params where
  "mha_wide_params =
     \<lparr>mha_query = mk_dense 1 2 [0, 0] [1, 1], mha_key = mk_dense 1 2 [1, 2] [0, 0],
      mha_value = mk_dense 1 2 [3, 5] [1, 0], mha_out = mk_dense 2 3 [1, 2, 3, 4, 5, 6] [0, 0, 0]\<rparr>"

section \<open>Indexing lemmas\<close>

lemma ravel_less: "valid_index s idx \<Longrightarrow> ravel s idx < prod_list s"
  unfolding valid_index_def
proof (induction idx s rule: list_all2_induct)
  case Nil
  then show ?case by simp
next
  case (Cons i idx d s)
  have "i * prod_list s + ravel s idx < i * prod_list s + prod_list s"
    using Cons.IH by simp
  also have "\<dots> = Suc i * prod_list s" by simp
  also have "\<dots> \<le> d * prod_list s"
    using Cons.hyps(1) by (intro mult_le_mono1) simp
  finally show ?case by simp
qed

lemma unravel_ravel: "valid_index s idx \<Longrightarrow> unravel s (ravel s idx) = idx"
  unfolding valid_index_def
proof (induction idx s rule: list_all2_induct)
  case Nil
  then show ?case by simp
next
  case (Cons i idx d s)
  have lt: "ravel s idx < prod_list s"
    using Cons.hyps(2) by (simp add: ravel_less valid_index_def)
  then show ?case using Cons.IH by simp
qed

lemma shape_tabulate [simp]: "shape (tabulate s f) = s"
  by (simp add: tabulate_def)

lemma wf_tabulate [simp]: "wf_tensor (tabulate s f)"
  by (simp add: tabulate_def wf_tensor_def)

lemma get_tabulate: "valid_index s idx \<Longrightarrow> get (tabulate s f) idx = f idx"
  by (simp add: get_def tabulate_def ravel_less unravel_ravel)

lemma valid_index3 [simp]: "valid_index [B, S, D] [b, i, d] = (b < B \<and> i < S \<and> d < D)"
  by (simp add: valid_index_def)

lemma valid_index4 [simp]: "valid_index [B, H, S, D] [b, h, i, d] = (b < B \<and> h < H \<and> i < S \<and> d < D)"
  by (simp add: valid_index_def)

lemma sum_list_upt: "sum_list (map f [0..<n]) = (\<Sum>k<n. f k)"
  by (induction n) simp_all

lemma Dense_eq:
  assumes "shape x = pre @ [D]" "shape (kernel p) = [D, F]" "shape (bias p) = [F]"
    and "0 < D" "0 < F"
  shows "Dense (int F) p x = Inr (tabulate (pre @ [F]) (\<lambda>idx. linear p x (butlast idx) (last idx)))"
  using assms by (simp add: Dense_def sum_list_upt linear_def)

lemma transpose_021:
  assumes "shape t = [B, S, D]"
  shows "transpose_t [0, 2, 1] t = Inr (tabulate [B, D, S] (\<lambda>idx. get t [idx ! 0, idx ! 2, idx ! 1]))"
  using assms by (simp add: transpose_t_def eval_nat_numeral)

lemma transpose_0213:
  assumes "shape t = [B, S, H, D]"
  shows "transpose_t [0, 2, 1, 3] t = Inr (tabulate [B, H, S, D] (\<lambda>idx. get t [idx ! 0, idx ! 2, idx ! 1, idx ! 3]))"
  using assms by (simp add: transpose_t_def eval_nat_numeral)

lemma transpose_0132:
  assumes "shape t = [B, H, S, D]"
  shows "transpose_t [0, 1, 3, 2] t = Inr (tabulate [B, H, D, S] (\<lambda>idx. get t [idx ! 0, idx ! 1, idx ! 3, idx ! 2]))"
  using assms by (simp add: transpose_t_def eval_nat_numeral)

lemma matmul_eq:
  assumes "shape a = pre @ [M, K]" "shape b = pre @ [K, N]"
  shows "matmul a b = Inr (tabulate (pre @ [M, N])
                (\<lambda>idx. (\<Sum>k<K. get a (butlast idx @ [k])
                                            * get b (butlast (butlast idx) @ [k, last idx]))))"
  using assms by (simp add: matmul_def sum_list_upt butlast_append)

lemma softmax_shift:
  shows "exp (s j - m) / (\<Sum>l<n. exp (s l - m)) = softmax_fn s n j"
proof -
  have "(\<Sum>l<n. exp (s l - m)) = (\<Sum>l<n. exp (s l)) / exp m"
    by (simp add: exp_diff sum_divide_distrib)
  then show ?thesis
    by (simp add: softmax_fn_def exp_diff)
qed

lemma softmax_eq:
  assumes "shape t \<noteq> []"
  shows "softmax t = Inr (tabulate (shape t)
           (\<lambda>idx. exp (get t idx - row_max (row_of t idx))
                    / (\<Sum>l<last (shape t). exp (get t (butlast idx @ [l]) - row_max (row_of t idx)))))"
  using assms by (simp add: softmax_def row_of_def sum_list_upt comp_def)

lemma SelfAttention_call_elems:
  assumes x: "shape x = [B, S, D]"
    and dk: "sa_head_dim self = int dk"
    and pq: "dense_shape (sa_query params) D dk"
    and pk: "dense_shape (sa_key params) D dk"
    and pv: "dense_shape (sa_value params) D dk"
    and pos: "0 < D" "0 < dk"
  obtains out w where
    "SelfAttention_call self params x = Inr (out, w)"
    "shape out = [B, S, dk]" "shape w = [B, S, S]" "wf_tensor out" "wf_tensor w"
    "\<And>b i j. b < B \<Longrightarrow> i < S \<Longrightarrow> j < S \<Longrightarrow> get w [b, i, j] = sa_weights self params x b i j"
    "\<And>b i d. b < B \<Longrightarrow> i < S \<Longrightarrow> d < dk \<Longrightarrow> get out [b, i, d] = sa_output self params x b i d"
proof -
  define q where "q = tabulate [B, S, dk] (\<lambda>idx. linear (sa_query params) x (butlast idx) (last idx))"
  define k where "k = tabulate [B, S, dk] (\<lambda>idx. linear (sa_key params) x (butlast idx) (last idx))"
  define v where "v = tabulate [B, S, dk] (\<lambda>idx. linear (sa_value params) x (butlast idx) (last idx))"
  have Dq: "Dense (sa_head_dim self) (sa_query params) x = Inr q"
    using Dense_eq[of x "[B, S]" D "sa_query params" dk] x dk pq pos by (simp add: q_def dense_shape_def)
  have Dk: "Dense (sa_head_dim self) (sa_key params) x = Inr k"
    using Dense_eq[of x "[B, S]" D "sa_key params" dk] x dk pk pos by (simp add: k_def dense_shape_def)
  have Dv: "Dense (sa_head_dim self) (sa_value params) x = Inr v"
    using Dense_eq[of x "[B, S]" D "sa_value params" dk] x dk pv pos by (simp add: v_def dense_shape_def)
  define kT where "kT = tabulate [B, dk, S] (\<lambda>idx. get k [idx ! 0, idx ! 2, idx ! 1])"
  have T: "transpose_t [0, 2, 1] k = Inr kT"
    using transpose_021[of k B S dk] by (simp add: k_def kT_def)
  define sc where "sc = tabulate [B, S, S]
     (\<lambda>idx. (\<Sum>c<dk. get q (butlast idx @ [c]) * get kT (butlast (butlast idx) @ [c, last idx])))"
  have M1: "matmul q kT = Inr sc"
    using matmul_eq[of q "[B]" S dk kT S] by (simp add: q_def kT_def sc_def)
  define c where "c = sqrt (real_of_int (sa_head_dim self))"
  define sd where "sd = tabulate [B, S, S] (\<lambda>idx. get sc idx / c)"
  have Dv': "divide_t sc c = sd"
    by (simp add: divide_t_def sd_def sc_def)
  define w where "w = tabulate [B, S, S]
           (\<lambda>idx. exp (get sd idx - row_max (row_of sd idx))
                    / (\<Sum>l<S. exp (get sd (butlast idx @ [l]) - row_max (row_of sd idx))))"
  have SM: "softmax sd = Inr w"
    using softmax_eq[of sd] by (simp add: sd_def w_def)
  define out where "out = tabulate [B, S, dk]
     (\<lambda>idx. (\<Sum>j<S. get w (butlast idx @ [j]) * get v (butlast (butlast idx) @ [j, last idx])))"
  have M2: "matmul w v = Inr out"
    using matmul_eq[of w "[B]" S S v dk] by (simp add: w_def v_def out_def)
  have call: "SelfAttention_call self params x = Inr (out, w)"
    by (simp only: SelfAttention_call_def and_then_def Dq Dk Dv T M1 Dv' SM M2 sum.case
          c_def[symmetric])
  have gq: "get q [b, i, d] = linear (sa_query params) x [b, i] d" if "b < B" "i < S" "d < dk" for b i d
    using that by (simp add: q_def get_tabulate)
  have gk: "get k [b, i, d] = linear (sa_key params) x [b, i] d" if "b < B" "i < S" "d < dk" for b i d
    using that by (simp add: k_def get_tabulate)
  have gv: "get v [b, i, d] = linear (sa_value params) x [b, i] d" if "b < B" "i < S" "d < dk" for b i d
    using that by (simp add: v_def get_tabulate)
  have gkT: "get kT [b, d, j] = linear (sa_key params) x [b, j] d" if "b < B" "j < S" "d < dk" for b j d
    using that by (simp add: kT_def get_tabulate gk)
  have gsc: "get sc [b, i, j] = sa_scores self params x b i j" if "b < B" "i < S" "j < S" for b i j
    using that by (simp add: sc_def get_tabulate gq gkT sa_scores_def dk)
  have gsd: "get sd [b, i, j] = sa_scaled self params x b i j" if "b < B" "i < S" "j < S" for b i j
    using that by (simp add: sd_def get_tabulate gsc sa_scaled_def c_def)
  have gw: "get w [b, i, j] = sa_weights self params x b i j" if "b < B" "i < S" "j < S" for b i j
  proof -
    have "get w [b, i, j] = softmax_fn (\<lambda>l. get sd [b, i, l]) S j"
      using that softmax_shift[of "\<lambda>l. get sd [b, i, l]" j "row_max (row_of sd [b, i, j])" S]
      by (simp add: w_def get_tabulate)
    also have "\<dots> = softmax_fn (sa_scaled self params x b i) S j"
      using that by (simp add: softmax_fn_def gsd)
    finally show ?thesis by (simp add: sa_weights_def x)
  qed
  have gout: "get out [b, i, d] = sa_output self params x b i d" if "b < B" "i < S" "d < dk" for b i d
    using that by (simp add: out_def get_tabulate gw gv sa_output_def x)
  show ?thesis
    by (rule that[OF call _ _ _ _ gw gout]) (simp_all add: out_def w_def)
qed

lemma reshape_split:
  assumes "shape t = [B, S, H * dk]"
  shows "reshape [int B, int S, int H, int dk] t = Inr (t\<lparr>shape := [B, S, H, dk]\<rparr>)"
  using assms by (simp add: reshape_def)

lemma reshape_merge:
  assumes "shape t = [B, S, H, dk]" "0 < B" "0 < S"
  shows "reshape [int B, int S, - 1] t = Inr (t\<lparr>shape := [B, S, H * dk]\<rparr>)"
proof -
  have "int B * (int S * (int H * int dk)) div (int B * int S) = int H * int dk"
    using assms(2,3) by (simp flip: mult.assoc)
  then show ?thesis
    using assms by (simp add: reshape_def Let_def nat_mult_distrib)
qed

lemma get_reshaped:
  assumes "shape t = [B, S, H * dk]" "d < dk"
  shows "get (t\<lparr>shape := [B, S, H, dk]\<rparr>) [b, s, h, d] = get t [b, s, h * dk + d]"
  using assms by (simp add: get_def algebra_simps)

lemma split_heads_eq:
  assumes "shape t = [B, S, H * dk]" "mha_num_heads self = int H" "mha_head_dim self = int dk"
  shows "split_heads self B S t =
    Inr (tabulate [B, H, S, dk] (\<lambda>idx. get (t\<lparr>shape := [B, S, H, dk]\<rparr>) [idx ! 0, idx ! 2, idx ! 1, idx ! 3]))"
  using assms reshape_split[of t B S H dk] transpose_0213[of "t\<lparr>shape := [B, S, H, dk]\<rparr>" B S H dk]
  by (simp only: split_heads_def and_then_def sum.case) simp

lemma head_index_less: "h < H \<Longrightarrow> d < dk \<Longrightarrow> h * dk + d < H * (dk::nat)"
proof -
  assume a: "h < H" "d < dk"
  have "h * dk + d < h * dk + dk" using a by simp
  also have "\<dots> = Suc h * dk" by simp
  also have "\<dots> \<le> H * dk" using a by (intro mult_le_mono1) simp
  finally show ?thesis .
qed

lemma get_split_heads:
  assumes "shape t = [B, S, H * dk]" "b < B" "h < H" "i < S" "d < dk"
  shows "get (tabulate [B, H, S, dk]
            (\<lambda>idx. get (t\<lparr>shape := [B, S, H, dk]\<rparr>) [idx ! 0, idx ! 2, idx ! 1, idx ! 3])) [b, h, i, d]
         = get t [b, i, h * dk + d]"
  using assms by (simp add: get_tabulate get_reshaped)

lemma get_merged:
  assumes "shape t = [B, S, H, dk]" "c < H * dk"
  shows "get (t\<lparr>shape := [B, S, H * dk]\<rparr>) [b, i, c] = get t [b, i, c div dk, c mod dk]"
proof -
  have "c div dk * dk + c mod dk = c" by simp
  then have "ravel [B, S, H * dk] [b, i, c] = ravel [B, S, H, dk] [b, i, c div dk, c mod dk]"
    by (simp add: algebra_simps)
  then show ?thesis using assms by (simp add: get_def)
qed

lemma MultiHeadAttention_call_elems:
  assumes x: "shape x = [B, S, D]"
    and nh: "mha_num_heads self = int H"
    and hd: "mha_head_dim self = int dk"
    and ed: "mha_embed_dim self = int E"
    and pq: "dense_shape (mha_query params) D (H * dk)"
    and pk: "dense_shape (mha_key params) D (H * dk)"
    and pv: "dense_shape (mha_value params) D (H * dk)"
    and po: "dense_shape (mha_out params) (H * dk) E"
    and pos: "0 < B" "0 < S"
    and pos': "0 < D" "0 < H" "0 < dk" "0 < E"
  obtains out w where
    "MultiHeadAttention_call self params x = Inr (out, w)"
    "shape out = [B, S, E]" "shape w = [B, H, S, S]" "wf_tensor out" "wf_tensor w"
    "\<And>b h i j. b < B \<Longrightarrow> h < H \<Longrightarrow> i < S \<Longrightarrow> j < S \<Longrightarrow>
        get w [b, h, i, j] = mha_weights self params x b h i j"
    "\<And>b i e. b < B \<Longrightarrow> i < S \<Longrightarrow> e < E \<Longrightarrow> get out [b, i, e] = mha_output self params x b i e"
proof -
  have feat: "mha_num_heads self * mha_head_dim self = int (H * dk)"
    by (simp add: nh hd)
  define qp where "qp = tabulate [B, S, H * dk] (\<lambda>idx. linear (mha_query params) x (butlast idx) (last idx))"
  define kp where "kp = tabulate [B, S, H * dk] (\<lambda>idx. linear (mha_key params) x (butlast idx) (last idx))"
  define vp where "vp = tabulate [B, S, H * dk] (\<lambda>idx. linear (mha_value params) x (butlast idx) (last idx))"
  have Dq: "Dense (mha_num_heads self * mha_head_dim self) (mha_query params) x = Inr qp"
    unfolding feat using Dense_eq[of x "[B, S]" D "mha_query params" "H * dk"] x pq pos'
    by (simp add: qp_def dense_shape_def)
  have Dk: "Dense (mha_num_heads self * mha_head_dim self) (mha_key params) x = Inr kp"
    unfolding feat using Dense_eq[of x "[B, S]" D "mha_key params" "H * dk"] x pk pos'
    by (simp add: kp_def dense_shape_def)
  have Dv: "Dense (mha_num_heads self * mha_head_dim self) (mha_value params) x = Inr vp"
    unfolding feat using Dense_eq[of x "[B, S]" D "mha_value params" "H * dk"] x pv pos'
    by (simp add: vp_def dense_shape_def)
  have sqp: "shape qp = [B, S, H * dk]" and skp: "shape kp = [B, S, H * dk]"
    and svp: "shape vp = [B, S, H * dk]"
    by (simp_all add: qp_def kp_def vp_def)
  define q where "q = tabulate [B, H, S, dk]
     (\<lambda>idx. get (qp\<lparr>shape := [B, S, H, dk]\<rparr>) [idx ! 0, idx ! 2, idx ! 1, idx ! 3])"
  define k where "k = tabulate [B, H, S, dk]
     (\<lambda>idx. get (kp\<lparr>shape := [B, S, H, dk]\<rparr>) [idx ! 0, idx ! 2, idx ! 1, idx ! 3])"
  define v where "v = tabulate [B, H, S, dk]
     (\<lambda>idx. get (vp\<lparr>shape := [B, S, H, dk]\<rparr>) [idx ! 0, idx ! 2, idx ! 1, idx ! 3])"
  have Sq: "split_heads self B S qp = Inr q"
    unfolding q_def by (rule split_heads_eq[OF sqp nh hd])
  have Sk: "split_heads self B S kp = Inr k"
    unfolding k_def by (rule split_heads_eq[OF skp nh hd])
  have Sv: "split_heads self B S vp = Inr v"
    unfolding v_def by (rule split_heads_eq[OF svp nh hd])
  define kT where "kT = tabulate [B, H, dk, S] (\<lambda>idx. get k [idx ! 0, idx ! 1, idx ! 3, idx ! 2])"
  have T: "transpose_t [0, 1, 3, 2] k = Inr kT"
    using transpose_0132[of k B H S dk] by (simp add: k_def kT_def)
  define sc where "sc = tabulate [B, H, S, S]
     (\<lambda>idx. (\<Sum>c<dk. get q (butlast idx @ [c]) * get kT (butlast (butlast idx) @ [c, last idx])))"
  have M1: "matmul q kT = Inr sc"
    using matmul_eq[of q "[B, H]" S dk kT S] by (simp add: q_def kT_def sc_def)
  define c where "c = sqrt (real_of_int (mha_head_dim self))"
  define sd where "sd = tabulate [B, H, S, S] (\<lambda>idx. get sc idx / c)"
  have Dv': "divide_t sc c = sd"
    by (simp add: divide_t_def sd_def sc_def)
  define w where "w = tabulate [B, H, S, S]
           (\<lambda>idx. exp (get sd idx - row_max (row_of sd idx))
                    / (\<Sum>l<S. exp (get sd (butlast idx @ [l]) - row_max (row_of sd idx))))"
  have SM: "softmax sd = Inr w"
    using softmax_eq[of sd] by (simp add: sd_def w_def)
  define ao where "ao = tabulate [B, H, S, dk]
     (\<lambda>idx. (\<Sum>j<S. get w (butlast idx @ [j]) * get v (butlast (butlast idx) @ [j, last idx])))"
  have M2: "matmul w v = Inr ao"
    using matmul_eq[of w "[B, H]" S S v dk] by (simp add: w_def v_def ao_def)
  define tr where "tr = tabulate [B, S, H, dk] (\<lambda>idx. get ao [idx ! 0, idx ! 2, idx ! 1, idx ! 3])"
  have T2: "transpose_t [0, 2, 1, 3] ao = Inr tr"
    using transpose_0213[of ao B H S dk] by (simp add: ao_def tr_def)
  define merged where "merged = tr\<lparr>shape := [B, S, H * dk]\<rparr>"
  have str: "shape tr = [B, S, H, dk]" by (simp add: tr_def)
  have R: "reshape [int B, int S, - 1] tr = Inr merged"
    unfolding merged_def by (rule reshape_merge[OF str pos])
  define out where "out = tabulate [B, S, E] (\<lambda>idx. linear (mha_out params) merged (butlast idx) (last idx))"
  have Do: "Dense (mha_embed_dim self) (mha_out params) merged = Inr out"
    unfolding ed using Dense_eq[of merged "[B, S]" "H * dk" "mha_out params" E] po pos'
    by (simp add: out_def merged_def dense_shape_def)
  have U: "unpack3 (shape x) = Inr (B, S, D)"
    by (simp add: unpack3_def x)
  have call: "MultiHeadAttention_call self params x = Inr (out, w)"
    by (simp only: MultiHeadAttention_call_def and_then_def U Dq Dk Dv Sq Sk Sv T M1 Dv' SM M2 T2 R Do
          sum.case prod.case c_def[symmetric])
  have gq: "get q [b, h, i, d] = linear (mha_query params) x [b, i] (h * dk + d)"
    if "b < B" "h < H" "i < S" "d < dk" for b h i d
  proof -
    have "get q [b, h, i, d] = get qp [b, i, h * dk + d]"
      unfolding q_def by (rule get_split_heads[OF sqp that])
    then show ?thesis
      using that head_index_less[of h H d dk] by (simp add: qp_def get_tabulate)
  qed
  have gk: "get k [b, h, i, d] = linear (mha_key params) x [b, i] (h * dk + d)"
    if "b < B" "h < H" "i < S" "d < dk" for b h i d
  proof -
    have "get k [b, h, i, d] = get kp [b, i, h * dk + d]"
      unfolding k_def by (rule get_split_heads[OF skp that])
    then show ?thesis
      using that head_index_less[of h H d dk] by (simp add: kp_def get_tabulate)
  qed
  have gv: "get v [b, h, i, d] = linear (mha_value params) x [b, i] (h * dk + d)"
    if "b < B" "h < H" "i < S" "d < dk" for b h i d
  proof -
    have "get v [b, h, i, d] = get vp [b, i, h * dk + d]"
      unfolding v_def by (rule get_split_heads[OF svp that])
    then show ?thesis
      using that head_index_less[of h H d dk] by (simp add: vp_def get_tabulate)
  qed
  have gkT: "get kT [b, h, d, j] = linear (mha_key params) x [b, j] (h * dk + d)"
    if "b < B" "h < H" "j < S" "d < dk" for b h j d
    using that by (simp add: kT_def get_tabulate gk)
  have gsc: "get sc [b, h, i, j] = mha_scores self params x b h i j"
    if "b < B" "h < H" "i < S" "j < S" for b h i j
    using that by (simp add: sc_def get_tabulate gq gkT mha_scores_def hd)
  have gsd: "get sd [b, h, i, j] = mha_scores self params x b h i j / c"
    if "b < B" "h < H" "i < S" "j < S" for b h i j
    using that by (simp add: sd_def get_tabulate gsc)
  have gw: "get w [b, h, i, j] = mha_weights self params x b h i j"
    if "b < B" "h < H" "i < S" "j < S" for b h i j
  proof -
    have "get w [b, h, i, j] = softmax_fn (\<lambda>l. get sd [b, h, i, l]) S j"
      using that softmax_shift[of "\<lambda>l. get sd [b, h, i, l]" j "row_max (row_of sd [b, h, i, j])" S]
      by (simp add: w_def get_tabulate)
    also have "\<dots> = softmax_fn (\<lambda>l. mha_scores self params x b h i l / c) S j"
      using that by (simp add: softmax_fn_def gsd)
    finally show ?thesis by (simp add: mha_weights_def x c_def)
  qed
  have gao: "get ao [b, h, i, d] = mha_head_output self params x b h i d"
    if "b < B" "h < H" "i < S" "d < dk" for b h i d
    using that by (simp add: ao_def get_tabulate gw gv mha_head_output_def x hd)
  have gm: "get merged [b, i, c'] = mha_concat self params x b i c'"
    if "b < B" "i < S" "c' < H * dk" for b i c'
  proof -
    have dk: "0 < dk" using that(3) by (cases dk) simp_all
    have h: "c' div dk < H" using that(3) dk by (simp add: less_mult_imp_div_less)
    have d: "c' mod dk < dk" using dk by simp
    have "get merged [b, i, c'] = get tr [b, i, c' div dk, c' mod dk]"
      unfolding merged_def by (rule get_merged[OF str that(3)])
    also have "\<dots> = get ao [b, c' div dk, i, c' mod dk]"
      using that h d by (simp add: tr_def get_tabulate)
    finally show ?thesis using that h d by (simp add: gao mha_concat_def hd)
  qed
  have gout: "get out [b, i, e] = mha_output self params x b i e"
    if "b < B" "i < S" "e < E" for b i e
  proof -
    have n: "nat (mha_num_heads self * mha_head_dim self) = H * dk"
      unfolding feat by (simp only: nat_int)
    have "get out [b, i, e] = linear (mha_out params) merged [b, i] e"
      using that by (simp add: out_def get_tabulate)
    also have "\<dots> = (\<Sum>c<H * dk. get merged [b, i, c] * get (kernel (mha_out params)) [c, e])
         + get (bias (mha_out params)) [e]"
      by (simp add: linear_def merged_def)
    also have "(\<Sum>c<H * dk. get merged [b, i, c] * get (kernel (mha_out params)) [c, e])
        = (\<Sum>c<H * dk. mha_concat self params x b i c * get (kernel (mha_out params)) [c, e])"
      using that by (intro sum.cong) (simp_all add: gm)
    finally show ?thesis
      unfolding mha_output_def n .
  qed
  show ?thesis
    by (rule that[OF call _ _ _ _ gw gout]) (simp_all add: out_def w_def)
qed

section \<open>Properties of the softmax\<close>

lemma softmax_fn_sum_pos: "0 < (n::nat) \<Longrightarrow> 0 < (\<Sum>l<n. exp (s l :: real))"
  by (intro sum_pos) (auto simp: lessThan_empty_iff)

lemma softmax_fn_sum: "0 < n \<Longrightarrow> (\<Sum>j<n. softmax_fn s n j) = 1"
  using softmax_fn_sum_pos[of n s] by (simp add: softmax_fn_def flip: sum_divide_distrib)

lemma softmax_fn_nonneg: "0 \<le> softmax_fn s n j"
  by (simp add: softmax_fn_def sum_nonneg)

lemma softmax_fn_le_one: "j < n \<Longrightarrow> softmax_fn s n j \<le> 1"
proof -
  assume j: "j < n"
  have "exp (s j) \<le> (\<Sum>l<n. exp (s l))"
    using j by (intro member_le_sum) simp_all
  moreover have "0 < (\<Sum>l<n. exp (s l))"
    using j by (intro softmax_fn_sum_pos) simp
  ultimately show ?thesis by (simp add: softmax_fn_def)
qed


section \<open>The single-head forward call\<close>

text \<open>
  C1. For an input of shape \<open>(B, S, D)\<close> with \<open>D\<close> positive, parameters of the shapes
  that fit it and a positive \<open>head_dim\<close>, the single-head forward call returns \<open>(output, attn_weights)\<close>
  with \<open>attn_weights[b, i, j]\<close> the softmax over \<open>j\<close> of
  \<open>(\<Sum>d. Q[b, i, d] * K[b, j, d]) / sqrt head_dim\<close> and
  \<open>output[b, i, d] = \<Sum>j. attn_weights[b, i, j] * V[b, j, d]\<close>, where \<open>Q\<close>, \<open>K\<close> and \<open>V\<close>
  are the three projections \<open>x @ W + b\<close> of the input.
\<close>

theorem SelfAttention_call_formula:
  assumes "shape x = [B, S, D]" and "sa_params_ok self params D dk" and "0 < dk" and "0 < D"
  shows "\<exists>out w. SelfAttention_call self params x = Inr (out, w)
           \<and> (\<forall>b<B. \<forall>i<S. (\<forall>j<S. get w [b, i, j] = sa_weights self params x b i j)
                 \<and> (\<forall>d<dk. get out [b, i, d] = sa_output self params x b i d))"
proof -
  from assms(2) have p: "sa_head_dim self = int dk" "dense_shape (sa_query params) D dk"
    "dense_shape (sa_key params) D dk" "dense_shape (sa_value params) D dk"
    by (simp_all add: sa_params_ok_def)
  from SelfAttention_call_elems[OF assms(1) p assms(4) assms(3)] obtain out w where
    "SelfAttention_call self params x = Inr (out, w)"
    "\<And>b i j. b < B \<Longrightarrow> i < S \<Longrightarrow> j < S \<Longrightarrow> get w [b, i, j] = sa_weights self params x b i j"
    "\<And>b i d. b < B \<Longrightarrow> i < S \<Longrightarrow> d < dk \<Longrightarrow> get out [b, i, d] = sa_output self params x b i d"
    by metis
  then show ?thesis by auto
qed

lemma sa_demo_ok: "sa_params_ok sa_demo sa_demo_params 1 1"
  by (simp add: sa_params_ok_def sa_demo_def sa_demo_params_def mk_dense_def dense_shape_def)

lemma sa_demo_scaled: "sa_scaled sa_demo sa_demo_params demo_x 0 0 j = (if j = 0 then 0 else 1)"
  if "j < 2"
  using that
  by (auto simp: sa_scaled_def sa_scores_def linear_def sa_demo_def sa_demo_params_def
      mk_dense_def demo_x_def get_def less_2_cases_iff)

theorem SelfAttention_call_formula_witness:
  "shape demo_x = [1, 2, 1] \<and> sa_params_ok sa_demo sa_demo_params 1 1 \<and> (0::nat) < 1
   \<and> (\<exists>out w. SelfAttention_call sa_demo sa_demo_params demo_x = Inr (out, w)
         \<and> get w [0, 0, 0] = 1 / (1 + exp 1))"
proof -
  have s: "shape demo_x = [1, 2, 1]" by (simp add: demo_x_def)
  from SelfAttention_call_formula[OF s sa_demo_ok] obtain out w where
    c: "SelfAttention_call sa_demo sa_demo_params demo_x = Inr (out, w)"
    and w: "\<forall>b<1. \<forall>i<2. (\<forall>j<2. get w [b, i, j] = sa_weights sa_demo sa_demo_params demo_x b i j)
                 \<and> (\<forall>d<1. get out [b, i, d] = sa_output sa_demo sa_demo_params demo_x b i d)"
    by auto
  have "get w [0, 0, 0] = sa_weights sa_demo sa_demo_params demo_x 0 0 0"
    using w by simp
  also have "\<dots> = 1 / (1 + exp 1)"
    by (simp add: sa_weights_def softmax_fn_def s sa_demo_scaled numeral_2_eq_2)
  finally show ?thesis using s sa_demo_ok c by simp
qed

section \<open>The multi-head forward call\<close>

text \<open>
  For an input of shape \<open>(B, S, D)\<close> with \<open>B\<close>, \<open>S\<close> and \<open>D\<close> positive, parameters of the
  shapes that fit it and positive \<open>num_heads\<close>, \<open>head_dim\<close> and \<open>embed_dim\<close>, the
  multi-head forward call returns
  \<open>(output, attn_weights)\<close> where \<open>attn_weights\<close> has shape \<open>(B, H, S, S)\<close> and
  \<open>attn_weights[b, h, i, j]\<close> is the scaled dot-product attention weight of head \<open>h\<close>,
  computed from the features \<open>h * head_dim + d\<close> of the query and key projections; the
  heads' outputs are concatenated along the feature axis in the order of the heads, and
  \<open>output\<close> is the fourth projection of that concatenation.
\<close>

theorem MultiHeadAttention_call_formula:
  assumes "shape x = [B, S, D]" and "mha_params_ok self params D H dk E"
    and "0 < B" and "0 < S" and "0 < D" and "0 < H" and "0 < dk" and "0 < E"
  shows "\<exists>out w. MultiHeadAttention_call self params x = Inr (out, w)
           \<and> shape w = [B, H, S, S]
           \<and> (\<forall>b<B. \<forall>i<S. (\<forall>h<H. \<forall>j<S. get w [b, h, i, j] = mha_weights self params x b h i j)
                 \<and> (\<forall>e<E. get out [b, i, e] = mha_output self params x b i e))"
proof -
  from assms(2) have p: "mha_num_heads self = int H" "mha_head_dim self = int dk"
    "mha_embed_dim self = int E" "dense_shape (mha_query params) D (H * dk)"
    "dense_shape (mha_key params) D (H * dk)" "dense_shape (mha_value params) D (H * dk)"
    "dense_shape (mha_out params) (H * dk) E"
    by (simp_all add: mha_params_ok_def)
  from MultiHeadAttention_call_elems[OF assms(1) p assms(3-8)] obtain out w where
    "MultiHeadAttention_call self params x = Inr (out, w)" "shape w = [B, H, S, S]"
    "\<And>b h i j. b < B \<Longrightarrow> h < H \<Longrightarrow> i < S \<Longrightarrow> j < S \<Longrightarrow>
        get w [b, h, i, j] = mha_weights self params x b h i j"
    "\<And>b i e. b < B \<Longrightarrow> i < S \<Longrightarrow> e < E \<Longrightarrow> get out [b, i, e] = mha_output self params x b i e"
    by metis
  then show ?thesis by auto
qed

lemma mha_demo_ok: "mha_params_ok mha_demo mha_demo_params 1 2 1 1"
  by (simp add: mha_params_ok_def mha_demo_def mha_demo_params_def mk_dense_def dense_shape_def)

lemma mha_demo_scores:
  "mha_scores mha_demo mha_demo_params demo_x 0 (Suc 0) 0 0 = 0"
  "mha_scores mha_demo mha_demo_params demo_x 0 (Suc 0) 0 (Suc 0) = 2"
  by (simp_all add: mha_scores_def linear_def mha_demo_def mha_demo_params_def
      mk_dense_def demo_x_def get_def)

lemma mha_demo_head_dim: "mha_head_dim mha_demo = 1"
  by (simp add: mha_demo_def)

theorem MultiHeadAttention_call_formula_witness:
  "shape demo_x = [1, 2, 1] \<and> mha_params_ok mha_demo mha_demo_params 1 2 1 1
   \<and> (0::nat) < 1 \<and> (0::nat) < 2
   \<and> (\<exists>out w. MultiHeadAttention_call mha_demo mha_demo_params demo_x = Inr (out, w)
         \<and> shape w = [1, 2, 2, 2] \<and> get w [0, 1, 0, 0] = 1 / (1 + exp 2))"
proof -
  have s: "shape demo_x = [1, 2, 1]" by (simp add: demo_x_def)
  from MultiHeadAttention_call_formula[OF s mha_demo_ok] obtain out w where
    c: "MultiHeadAttention_call mha_demo mha_demo_params demo_x = Inr (out, w)"
    and sw: "shape w = [1, 2, 2, 2]"
    and w: "\<forall>b<1. \<forall>i<2. (\<forall>h<2. \<forall>j<2. get w [b, h, i, j] = mha_weights mha_demo mha_demo_params demo_x b h i j)
                 \<and> (\<forall>e<1. get out [b, i, e] = mha_output mha_demo mha_demo_params demo_x b i e)"
    by auto
  have "get w [0, 1, 0, 0] = mha_weights mha_demo mha_demo_params demo_x 0 1 0 0"
    using w by simp
  also have "\<dots> = 1 / (1 + exp 2)"
    by (simp add: mha_weights_def softmax_fn_def s mha_demo_scores mha_demo_head_dim numeral_2_eq_2)
  finally show ?thesis using s mha_demo_ok c sw by simp
qed

section \<open>Rows of the attention weights\<close>

text \<open>
  In the exact arithmetic of the model, for positive sizes, every row of the returned
  attention weights (fixed batch index, head index for the multi-head call, and query
  position) sums to one, and every entry lies between zero and one. Overflow of the
  program's floating-point numbers is outside this statement.
\<close>

theorem attn_weights_rows_sum_to_one:
  assumes "shape x = [B, S, D]" and "0 < S" and "0 < D"
  shows "(sa_params_ok self params D dk \<and> 0 < dk \<longrightarrow>
            (\<exists>out w. SelfAttention_call self params x = Inr (out, w)
               \<and> (\<forall>b<B. \<forall>i<S. (\<Sum>j<S. get w [b, i, j]) = 1
                     \<and> (\<forall>j<S. 0 \<le> get w [b, i, j] \<and> get w [b, i, j] \<le> 1))))
       \<and> (mha_params_ok mself mparams D H hk E \<and> 0 < H \<and> 0 < hk \<and> 0 < E \<and> 0 < B \<longrightarrow>
            (\<exists>out w. MultiHeadAttention_call mself mparams x = Inr (out, w)
               \<and> (\<forall>b<B. \<forall>h<H. \<forall>i<S. (\<Sum>j<S. get w [b, h, i, j]) = 1
                     \<and> (\<forall>j<S. 0 \<le> get w [b, h, i, j] \<and> get w [b, h, i, j] \<le> 1))))"
proof (intro conjI impI)
  assume a: "sa_params_ok self params D dk \<and> 0 < dk"
  then have p: "sa_head_dim self = int dk" "dense_shape (sa_query params) D dk"
    "dense_shape (sa_key params) D dk" "dense_shape (sa_value params) D dk" "0 < D" "0 < dk"
    using assms(3) by (simp_all add: sa_params_ok_def)
  from SelfAttention_call_elems[OF assms(1) p] obtain out w where
    c: "SelfAttention_call self params x = Inr (out, w)"
    and w: "\<And>b i j. b < B \<Longrightarrow> i < S \<Longrightarrow> j < S \<Longrightarrow> get w [b, i, j] = sa_weights self params x b i j"
    by metis
  have "(\<Sum>j<S. get w [b, i, j]) = 1
       \<and> (\<forall>j<S. 0 \<le> get w [b, i, j] \<and> get w [b, i, j] \<le> 1)" if "b < B" "i < S" for b i
  proof -
    have "(\<Sum>j<S. get w [b, i, j]) = (\<Sum>j<S. softmax_fn (sa_scaled self params x b i) S j)"
      using that assms(1) by (intro sum.cong) (simp_all add: w sa_weights_def)
    then show ?thesis
      using that assms by (simp add: softmax_fn_sum w sa_weights_def softmax_fn_nonneg softmax_fn_le_one)
  qed
  with c show "\<exists>out w. SelfAttention_call self params x = Inr (out, w)
               \<and> (\<forall>b<B. \<forall>i<S. (\<Sum>j<S. get w [b, i, j]) = 1
                     \<and> (\<forall>j<S. 0 \<le> get w [b, i, j] \<and> get w [b, i, j] \<le> 1))"
    by blast
next
  assume a: "mha_params_ok mself mparams D H hk E \<and> 0 < H \<and> 0 < hk \<and> 0 < E \<and> 0 < B"
  then have p: "mha_num_heads mself = int H" "mha_head_dim mself = int hk"
    "mha_embed_dim mself = int E" "dense_shape (mha_query mparams) D (H * hk)"
    "dense_shape (mha_key mparams) D (H * hk)" "dense_shape (mha_value mparams) D (H * hk)"
    "dense_shape (mha_out mparams) (H * hk) E"
    by (simp_all add: mha_params_ok_def)
  from a have B: "0 < B" and q: "0 < H" "0 < hk" "0 < E" by simp_all
  from MultiHeadAttention_call_elems[OF assms(1) p B assms(2,3) q] obtain out w where
    c: "MultiHeadAttention_call mself mparams x = Inr (out, w)"
    and w: "\<And>b h i j. b < B \<Longrightarrow> h < H \<Longrightarrow> i < S \<Longrightarrow> j < S \<Longrightarrow>
        get w [b, h, i, j] = mha_weights mself mparams x b h i j"
    by metis
  have "(\<Sum>j<S. get w [b, h, i, j]) = 1
       \<and> (\<forall>j<S. 0 \<le> get w [b, h, i, j] \<and> get w [b, h, i, j] \<le> 1)"
    if "b < B" "h < H" "i < S" for b h i
  proof -
    have "(\<Sum>j<S. get w [b, h, i, j]) = (\<Sum>j<S. mha_weights mself mparams x b h i j)"
      using that by (intro sum.cong) (simp_all add: w)
    then show ?thesis
      using that assms by (simp add: softmax_fn_sum w mha_weights_def softmax_fn_nonneg softmax_fn_le_one)
  qed
  with c show "\<exists>out w. MultiHeadAttention_call mself mparams x = Inr (out, w)
               \<and> (\<forall>b<B. \<forall>h<H. \<forall>i<S. (\<Sum>j<S. get w [b, h, i, j]) = 1
                     \<and> (\<forall>j<S. 0 \<le> get w [b, h, i, j] \<and> get w [b, h, i, j] \<le> 1))"
    by blast
qed

theorem attn_weights_rows_sum_to_one_witness:
  "shape demo_x = [1, 2, 1] \<and> (0::nat) < 2
   \<and> sa_params_ok sa_demo sa_demo_params 1 1 \<and> (0::nat) < 1
   \<and> mha_params_ok mha_demo mha_demo_params 1 2 1 1
   \<and> (\<exists>out w. SelfAttention_call sa_demo sa_demo_params demo_x = Inr (out, w)
         \<and> get w [0, 1, 0] + get w [0, 1, 1] = 1 \<and> 0 \<le> get w [0, 1, 0] \<and> get w [0, 1, 0] \<le> 1)
   \<and> (\<exists>out w. MultiHeadAttention_call mha_demo mha_demo_params demo_x = Inr (out, w)
         \<and> get w [0, 1, 1, 0] + get w [0, 1, 1, 1] = 1 \<and> 0 \<le> get w [0, 1, 1, 1]
         \<and> get w [0, 1, 1, 1] \<le> 1)"
proof -
  have s: "shape demo_x = [1, 2, 1]" by (simp add: demo_x_def)
  have two: "(0::nat) < 2" by simp
  have one: "(0::nat) < 1" by simp
  note t = attn_weights_rows_sum_to_one[OF s two one, of sa_demo sa_demo_params 1 mha_demo mha_demo_params 2 1 1]
  from t sa_demo_ok obtain out w where
    c: "SelfAttention_call sa_demo sa_demo_params demo_x = Inr (out, w)"
    and w: "\<forall>b<1. \<forall>i<2. (\<Sum>j<2. get w [b, i, j]) = 1
                     \<and> (\<forall>j<2. 0 \<le> get w [b, i, j] \<and> get w [b, i, j] \<le> 1)"
    by auto
  from t mha_demo_ok obtain out' w' where
    c': "MultiHeadAttention_call mha_demo mha_demo_params demo_x = Inr (out', w')"
    and w': "\<forall>b<1. \<forall>h<2. \<forall>i<2. (\<Sum>j<2. get w' [b, h, i, j]) = 1
                     \<and> (\<forall>j<2. 0 \<le> get w' [b, h, i, j] \<and> get w' [b, h, i, j] \<le> 1)"
    by auto
  have r: "get w [0, 1, 0] + get w [0, 1, 1] = 1 \<and> 0 \<le> get w [0, 1, 0] \<and> get w [0, 1, 0] \<le> 1"
    using w by (simp add: numeral_2_eq_2)
  have r': "get w' [0, 1, 1, 0] + get w' [0, 1, 1, 1] = 1 \<and> 0 \<le> get w' [0, 1, 1, 1]
         \<and> get w' [0, 1, 1, 1] \<le> 1"
    using w' by (simp add: numeral_2_eq_2)
  show ?thesis using s sa_demo_ok mha_demo_ok c c' r r' by simp
qed

section \<open>Shapes of the results\<close>

lemma shape_zeros [simp]: "shape (zeros s) = s"
  by (simp add: zeros_def)

lemma sa_notebook_ok: "sa_params_ok sa_notebook sa_notebook_params 64 32"
  by (simp add: sa_params_ok_def sa_notebook_def sa_notebook_params_def dense_shape_def)

lemma mha_notebook_ok: "mha_params_ok mha_notebook mha_notebook_params 64 4 16 64"
  by (simp add: mha_params_ok_def mha_notebook_def mha_notebook_params_def dense_shape_def)

text \<open>
  For an input of shape \<open>(B, S, D)\<close> with \<open>D\<close> positive, parameters of the shapes that fit
  it and positive \<open>head_dim\<close>, \<open>num_heads\<close> and \<open>embed_dim\<close>, the single-head forward call
  returns an output of shape \<open>(B, S, head_dim)\<close> and attention weights of shape
  \<open>(B, S, S)\<close>; for positive \<open>B\<close> and \<open>S\<close> the multi-head forward call returns an output
  of shape \<open>(B, S, embed_dim)\<close> and attention weights of shape \<open>(B, num_heads, S, S)\<close>.
  Each returned tensor holds as many elements as its shape says.
\<close>

theorem forward_shapes:
  assumes "shape x = [B, S, D]" and "0 < D"
  shows "(sa_params_ok self params D dk \<and> 0 < dk \<longrightarrow>
            (\<exists>out w. SelfAttention_call self params x = Inr (out, w)
               \<and> shape out = [B, S, dk] \<and> shape w = [B, S, S]
               \<and> wf_tensor out \<and> wf_tensor w))
       \<and> (mha_params_ok mself mparams D H hk E \<and> 0 < H \<and> 0 < hk \<and> 0 < E
             \<and> 0 < B \<and> 0 < S \<longrightarrow>
            (\<exists>out w. MultiHeadAttention_call mself mparams x = Inr (out, w)
               \<and> shape out = [B, S, E] \<and> shape w = [B, H, S, S]
               \<and> wf_tensor out \<and> wf_tensor w))"
proof (intro conjI impI)
  assume "sa_params_ok self params D dk \<and> 0 < dk"
  then have p: "sa_head_dim self = int dk" "dense_shape (sa_query params) D dk"
    "dense_shape (sa_key params) D dk" "dense_shape (sa_value params) D dk" "0 < D" "0 < dk"
    using assms(2) by (simp_all add: sa_params_ok_def)
  from SelfAttention_call_elems[OF assms(1) p]
  show "\<exists>out w. SelfAttention_call self params x = Inr (out, w)
               \<and> shape out = [B, S, dk] \<and> shape w = [B, S, S]
               \<and> wf_tensor out \<and> wf_tensor w"
    by metis
next
  assume a: "mha_params_ok mself mparams D H hk E \<and> 0 < H \<and> 0 < hk \<and> 0 < E
             \<and> 0 < B \<and> 0 < S"
  then have p: "mha_num_heads mself = int H" "mha_head_dim mself = int hk"
    "mha_embed_dim mself = int E" "dense_shape (mha_query mparams) D (H * hk)"
    "dense_shape (mha_key mparams) D (H * hk)" "dense_shape (mha_value mparams) D (H * hk)"
    "dense_shape (mha_out mparams) (H * hk) E" "0 < B" "0 < S" "0 < D" "0 < H" "0 < hk" "0 < E"
    using assms(2) by (simp_all add: mha_params_ok_def)
  from MultiHeadAttention_call_elems[OF assms(1) p]
  show "\<exists>out w. MultiHeadAttention_call mself mparams x = Inr (out, w)
               \<and> shape out = [B, S, E] \<and> shape w = [B, H, S, S]
               \<and> wf_tensor out \<and> wf_tensor w"
    by metis
qed

theorem forward_shapes_witness:
  "shape (zeros [1, 5, 64]) = [1, 5, 64]
   \<and> sa_params_ok sa_notebook sa_notebook_params 64 32
   \<and> mha_params_ok mha_notebook mha_notebook_params 64 4 16 64 \<and> (0::nat) < 1 \<and> (0::nat) < 5
   \<and> (\<exists>out w. SelfAttention_call sa_notebook sa_notebook_params (zeros [1, 5, 64]) = Inr (out, w)
         \<and> shape out = [1, 5, 32] \<and> shape w = [1, 5, 5])
   \<and> (\<exists>out w. MultiHeadAttention_call mha_notebook mha_notebook_params (zeros [1, 5, 64]) = Inr (out, w)
         \<and> shape out = [1, 5, 64] \<and> shape w = [1, 4, 5, 5])"
proof -
  have s: "shape (zeros [1, 5, 64]) = [1, 5, 64]" by simp
  have d: "(0::nat) < 64" by simp
  note t = forward_shapes[OF s d, of sa_notebook sa_notebook_params 32
      mha_notebook mha_notebook_params 4 16 64]
  from t sa_notebook_ok have a: "\<exists>out w.
      SelfAttention_call sa_notebook sa_notebook_params (zeros [1, 5, 64]) = Inr (out, w)
      \<and> shape out = [1, 5, 32] \<and> shape w = [1, 5, 5]"
    by auto
  from t mha_notebook_ok have b: "\<exists>out w.
      MultiHeadAttention_call mha_notebook mha_notebook_params (zeros [1, 5, 64]) = Inr (out, w)
      \<and> shape out = [1, 5, 64] \<and> shape w = [1, 4, 5, 5]"
    by auto
  show ?thesis using s sa_notebook_ok mha_notebook_ok a b by simp
qed

section \<open>Sizes that are not positive\<close>

text \<open>
  A projection rejects a number of features that is not positive, whatever its
  parameters and input are, and a forward call raises as soon as one of its steps does.
\<close>

lemma Dense_nonpositive: "features \<le> 0 \<Longrightarrow> isl (Dense features p x)"
  by (simp add: Dense_def)

lemma Dense_Inr_positive: "Dense features p x = Inr y \<Longrightarrow> 0 < features"
  by (simp add: Dense_def split: if_splits)

lemma isl_and_then: "isl m \<Longrightarrow> isl (and_then m f)"
  by (cases m) (simp_all add: and_then_def)

lemma isl_and_then_all: "(\<And>v. isl (f v)) \<Longrightarrow> isl (and_then m f)"
  by (cases m) (simp_all add: and_then_def)

lemma SelfAttention_call_nonpositive_head_dim:
  "sa_head_dim self \<le> 0 \<Longrightarrow> isl (SelfAttention_call self params x)"
  unfolding SelfAttention_call_def by (intro isl_and_then Dense_nonpositive)

lemma split_heads_negative_head_dim:
  assumes "mha_head_dim self < 0" and "mha_num_heads self \<le> 0"
  shows "isl (split_heads self B S t)"
proof (cases "mha_head_dim self < - 1")
  case True
  then show ?thesis
    by (simp add: split_heads_def and_then_def reshape_def)
next
  case False
  with assms have h: "mha_head_dim self = - 1" by simp
  show ?thesis
    using h assms(2) by (auto simp: split_heads_def and_then_def reshape_def Let_def)
qed

lemma MultiHeadAttention_call_nonpositive_heads:
  assumes "mha_num_heads self \<le> 0 \<or> mha_head_dim self \<le> 0"
  shows "isl (MultiHeadAttention_call self params x)"
proof (cases "unpack3 (shape x)")
  case (Inl e)
  then show ?thesis by (simp add: MultiHeadAttention_call_def and_then_def)
next
  case (Inr r)
  obtain B S D where r: "r = (B, S, D)" by (cases r)
  show ?thesis
  proof (cases "Dense (mha_num_heads self * mha_head_dim self) (mha_query params) x")
    case (Inl e)
    then show ?thesis using Inr r by (simp add: MultiHeadAttention_call_def and_then_def)
  next
    case d: (Inr qp)
    then have "0 < mha_num_heads self * mha_head_dim self"
      by (rule Dense_Inr_positive)
    with assms have "mha_head_dim self < 0" and "mha_num_heads self \<le> 0"
      by (auto simp: zero_less_mult_iff)
    from split_heads_negative_head_dim[OF this, of B S qp]
    obtain e where "split_heads self B S qp = Inl e" by (cases "split_heads self B S qp") simp_all
    then show ?thesis using Inr r d by (simp add: MultiHeadAttention_call_def and_then_def)
  qed
qed

lemma MultiHeadAttention_call_nonpositive_embed_dim:
  assumes "mha_embed_dim self \<le> 0"
  shows "isl (MultiHeadAttention_call self params x)"
proof (cases "unpack3 (shape x)")
  case (Inl e)
  then show ?thesis by (simp add: MultiHeadAttention_call_def and_then_def)
next
  case (Inr r)
  obtain B S D where r: "r = (B, S, D)" by (cases r)
  show ?thesis
    unfolding MultiHeadAttention_call_def Inr r and_then_def[of "Inr (B, S, D)"] sum.case prod.case
    by (intro isl_and_then[OF Dense_nonpositive[OF assms]] isl_and_then_all)
qed

section \<open>Construction\<close>

text \<open>
  C6, as the claim states it, fails: a module is constructed from non-positive fields.
\<close>

theorem construction_accepts_nonpositive:
  "SelfAttention_new (- 3) 0 = Inr \<lparr>sa_embed_dim = - 3, sa_head_dim = 0\<rparr>
   \<and> MultiHeadAttention_new 0 (- 1) (- 2)
       = Inr \<lparr>mha_embed_dim = 0, mha_num_heads = - 1, mha_head_dim = - 2\<rparr>"
  by (simp add: SelfAttention_new_def MultiHeadAttention_new_def)

text \<open>
  C6, amended. Construction never rejects: the constructors store the fields they are
  given. A \<open>head_dim\<close> that is not positive, and for the multi-head module an
  \<open>embed_dim\<close> or a \<open>num_heads\<close> that is not positive, is rejected later, by the forward
  call.
\<close>

theorem construction_never_rejects:
  "SelfAttention_new e h = Inr \<lparr>sa_embed_dim = e, sa_head_dim = h\<rparr>
   \<and> MultiHeadAttention_new e n h = Inr \<lparr>mha_embed_dim = e, mha_num_heads = n, mha_head_dim = h\<rparr>
   \<and> (h \<le> 0 \<longrightarrow> isl (SelfAttention_call \<lparr>sa_embed_dim = e, sa_head_dim = h\<rparr> params x))
   \<and> (e \<le> 0 \<or> n \<le> 0 \<or> h \<le> 0 \<longrightarrow>
        isl (MultiHeadAttention_call \<lparr>mha_embed_dim = e, mha_num_heads = n, mha_head_dim = h\<rparr> mparams x))"
proof (intro conjI impI)
  show "SelfAttention_new e h = Inr \<lparr>sa_embed_dim = e, sa_head_dim = h\<rparr>"
    by (simp add: SelfAttention_new_def)
  show "MultiHeadAttention_new e n h = Inr \<lparr>mha_embed_dim = e, mha_num_heads = n, mha_head_dim = h\<rparr>"
    by (simp add: MultiHeadAttention_new_def)
next
  assume "h \<le> 0"
  then show "isl (SelfAttention_call \<lparr>sa_embed_dim = e, sa_head_dim = h\<rparr> params x)"
    by (intro SelfAttention_call_nonpositive_head_dim) simp
next
  assume a: "e \<le> 0 \<or> n \<le> 0 \<or> h \<le> 0"
  show "isl (MultiHeadAttention_call \<lparr>mha_embed_dim = e, mha_num_heads = n, mha_head_dim = h\<rparr> mparams x)"
  proof (cases "e \<le> 0")
    case True
    then show ?thesis
      by (intro MultiHeadAttention_call_nonpositive_embed_dim) simp
  next
    case False
    with a show ?thesis
      by (intro MultiHeadAttention_call_nonpositive_heads) simp
  qed
qed

theorem construction_never_rejects_witness:
  "SelfAttention_new 64 (- 1) = Inr \<lparr>sa_embed_dim = 64, sa_head_dim = - 1\<rparr>
   \<and> MultiHeadAttention_new 64 4 (- 1)
       = Inr \<lparr>mha_embed_dim = 64, mha_num_heads = 4, mha_head_dim = - 1\<rparr>
   \<and> (- 1 :: int) \<le> 0
   \<and> isl (SelfAttention_call \<lparr>sa_embed_dim = 64, sa_head_dim = - 1\<rparr> sa_notebook_params (zeros [1, 5, 64]))
   \<and> isl (MultiHeadAttention_call \<lparr>mha_embed_dim = 64, mha_num_heads = 4, mha_head_dim = - 1\<rparr>
         mha_notebook_params (zeros [1, 5, 64]))"
  using construction_never_rejects[of 64 "- 1" 4 sa_notebook_params "zeros [1, 5, 64]" mha_notebook_params]
  by simp

section \<open>Inputs that do not fit\<close>

lemma sa_wide_ok: "sa_params_ok (sa_demo\<lparr>sa_embed_dim := 3\<rparr>) sa_demo_params 1 1"
  by (simp add: sa_params_ok_def sa_demo_def sa_demo_params_def mk_dense_def dense_shape_def)

lemma mha_wide_ok: "mha_params_ok mha_wide mha_wide_params 1 2 1 3"
  by (simp add: mha_params_ok_def mha_wide_def mha_wide_params_def mk_dense_def dense_shape_def)

lemma SelfAttention_call_accepts:
  assumes "shape x = [B, S, D]" and "sa_params_ok self params D dk" and "0 < D" and "0 < dk"
  shows "\<not> isl (SelfAttention_call self params x)"
proof -
  from assms(2) have p: "sa_head_dim self = int dk" "dense_shape (sa_query params) D dk"
    "dense_shape (sa_key params) D dk" "dense_shape (sa_value params) D dk"
    by (simp_all add: sa_params_ok_def)
  from SelfAttention_call_elems[OF assms(1) p assms(3,4)] obtain out w where
    "SelfAttention_call self params x = Inr (out, w)"
    by metis
  then show ?thesis by simp
qed

lemma MultiHeadAttention_call_accepts:
  assumes "shape x = [B, S, D]" and "mha_params_ok self params D H dk E" and "0 < B" and "0 < S"
    and "0 < D" and "0 < H" and "0 < dk" and "0 < E"
  shows "\<not> isl (MultiHeadAttention_call self params x)"
proof -
  from assms(2) have p: "mha_num_heads self = int H" "mha_head_dim self = int dk"
    "mha_embed_dim self = int E" "dense_shape (mha_query params) D (H * dk)"
    "dense_shape (mha_key params) D (H * dk)" "dense_shape (mha_value params) D (H * dk)"
    "dense_shape (mha_out params) (H * dk) E"
    by (simp_all add: mha_params_ok_def)
  from MultiHeadAttention_call_elems[OF assms(1) p assms(3-8)] obtain out w where
    "MultiHeadAttention_call self params x = Inr (out, w)"
    by metis
  then show ?thesis by simp
qed

text \<open>
  C7, as the claim states it, fails: the input's last axis has size 1, the configured
  \<open>embed_dim\<close> is 3, and both forward calls return a result.
\<close>

theorem embed_dim_mismatch_accepted:
  "last (shape demo_x) = 1
   \<and> sa_embed_dim (sa_demo\<lparr>sa_embed_dim := 3\<rparr>) = 3
   \<and> \<not> isl (SelfAttention_call (sa_demo\<lparr>sa_embed_dim := 3\<rparr>) sa_demo_params demo_x)
   \<and> mha_embed_dim mha_wide = 3
   \<and> \<not> isl (MultiHeadAttention_call mha_wide mha_wide_params demo_x)"
proof -
  have s: "shape demo_x = [1, 2, 1]" by (simp add: demo_x_def)
  have "\<not> isl (SelfAttention_call (sa_demo\<lparr>sa_embed_dim := 3\<rparr>) sa_demo_params demo_x)"
    by (rule SelfAttention_call_accepts[OF s sa_wide_ok]) simp_all
  moreover have "\<not> isl (MultiHeadAttention_call mha_wide mha_wide_params demo_x)"
    by (rule MultiHeadAttention_call_accepts[OF s mha_wide_ok]) simp_all
  ultimately show ?thesis
    by (simp add: s mha_wide_def)
qed

text \<open>
  C7, amended. An input whose last axis differs in size from the first axis of the stored
  query kernel (the size the parameters were initialised with) is rejected by the first
  projection of the forward call, before anything is computed, for both modules; the
  configured \<open>embed_dim\<close> takes no part in the check. The error is that of the shape
  comparison unless the projection's own sizes are not positive.
\<close>

theorem kernel_mismatch_rejected:
  assumes "shape x \<noteq> []" and "last (shape x) \<noteq> D"
  shows "(shape (kernel (sa_query params)) = [D, F] \<longrightarrow>
            SelfAttention_call self params x
              = Inl (if last (shape x) = 0 \<or> sa_head_dim self = 0 then ZeroDivisionError
                     else if sa_head_dim self < 0 then TypeError
                     else ScopeParamShapeError))
       \<and> (shape (kernel (mha_query mparams)) = [D, F] \<longrightarrow>
            MultiHeadAttention_call mself mparams x
              = Inl (if length (shape x) \<noteq> 3 then UnpackError
                     else if last (shape x) = 0 \<or> mha_num_heads mself * mha_head_dim mself = 0
                     then ZeroDivisionError
                     else if mha_num_heads mself * mha_head_dim mself < 0 then TypeError
                     else ScopeParamShapeError))"
proof (intro conjI impI)
  assume "shape (kernel (sa_query params)) = [D, F]"
  then show "SelfAttention_call self params x
              = Inl (if last (shape x) = 0 \<or> sa_head_dim self = 0 then ZeroDivisionError
                     else if sa_head_dim self < 0 then TypeError
                     else ScopeParamShapeError)"
    using assms by (simp add: SelfAttention_call_def and_then_def Dense_def)
next
  assume k: "shape (kernel (mha_query mparams)) = [D, F]"
  show "MultiHeadAttention_call mself mparams x
              = Inl (if length (shape x) \<noteq> 3 then UnpackError
                     else if last (shape x) = 0 \<or> mha_num_heads mself * mha_head_dim mself = 0
                     then ZeroDivisionError
                     else if mha_num_heads mself * mha_head_dim mself < 0 then TypeError
                     else ScopeParamShapeError)"
  proof (cases "length (shape x) = 3")
    case True
    then obtain a b c where s: "shape x = [a, b, c]"
      by (auto simp: length_Suc_conv eval_nat_numeral)
    then show ?thesis
      using assms k by (simp add: MultiHeadAttention_call_def and_then_def unpack3_def Dense_def)
  next
    case False
    then have "unpack3 (shape x) = Inl UnpackError"
      by (auto simp: unpack3_def split: list.splits)
    with False show ?thesis
      by (simp add: MultiHeadAttention_call_def and_then_def)
  qed
qed

theorem kernel_mismatch_rejected_witness:
  "shape (zeros [1, 5, 48]) \<noteq> [] \<and> last (shape (zeros [1, 5, 48])) \<noteq> 64
   \<and> shape (kernel (sa_query sa_notebook_params)) = [64, 32]
   \<and> SelfAttention_call sa_notebook sa_notebook_params (zeros [1, 5, 48]) = Inl ScopeParamShapeError
   \<and> shape (kernel (mha_query mha_notebook_params)) = [64, 64]
   \<and> MultiHeadAttention_call mha_notebook mha_notebook_params (zeros [1, 5, 48])
        = Inl ScopeParamShapeError"
proof -
  have a: "shape (zeros [1, 5, 48]) \<noteq> []" and b: "last (shape (zeros [1, 5, 48])) \<noteq> 64"
    by simp_all
  have k: "shape (kernel (sa_query sa_notebook_params)) = [64, 32]"
    by (simp add: sa_notebook_params_def)
  have k': "shape (kernel (mha_query mha_notebook_params)) = [64, 64]"
    by (simp add: mha_notebook_params_def)
  from kernel_mismatch_rejected[OF a b, where params = sa_notebook_params and F = 32 and self = sa_notebook] k
  have 1: "SelfAttention_call sa_notebook sa_notebook_params (zeros [1, 5, 48]) = Inl ScopeParamShapeError"
    by (simp add: sa_notebook_def)
  from kernel_mismatch_rejected[OF a b, where mparams = mha_notebook_params and F = 64 and mself = mha_notebook] k'
  have 2: "MultiHeadAttention_call mha_notebook mha_notebook_params (zeros [1, 5, 48])
        = Inl ScopeParamShapeError"
    by (simp add: mha_notebook_def)
  show ?thesis using a b k k' 1 2 by blast
qed

section \<open>Uniform attention\<close>







section \<open>Empty batches and sequences\<close>

lemma SelfAttention_call_empty:
  assumes "shape x = [B, 0, D]" and "sa_params_ok self params D dk" and "0 < D" and "0 < dk"
  shows "\<exists>out w. SelfAttention_call self params x = Inr (out, w)
           \<and> shape out = [B, 0, dk] \<and> shape w = [B, 0, 0] \<and> data out = [] \<and> data w = []"
  using assms
  by (simp add: SelfAttention_call_def and_then_def Dense_def transpose_t_def matmul_def
      softmax_def divide_t_def sa_params_ok_def dense_shape_def eval_nat_numeral Let_def
      tabulate_def)

lemma MultiHeadAttention_call_empty:
  assumes "shape x = [B, S, D]" and "B = 0 \<or> S = 0" and "mha_params_ok self params D H dk E"
    and "0 < D" and "0 < H" and "0 < dk" and "0 < E"
  shows "MultiHeadAttention_call self params x = Inl ReshapeError"
proof -
  have "\<not> int H * int dk < 0" "int H * int dk \<noteq> 0"
    using assms(5,6) by (simp_all add: not_less)
  then show ?thesis
    using assms
    by (simp add: MultiHeadAttention_call_def and_then_def unpack3_def Dense_def split_heads_def
        reshape_def transpose_t_def matmul_def softmax_def divide_t_def mha_params_ok_def
        dense_shape_def nat_mult_distrib eval_nat_numeral Let_def)
qed

text \<open>
  C9. The multi-head forward call of the notebook's module on an input of shape
  \<open>(1, 0, 64)\<close> does not return an empty result: the reshape to
  \<open>(batch_size, seq_len, -1)\<close> cannot infer the last axis when \<open>seq_len\<close> is zero, and
  the call raises.
\<close>

theorem MultiHeadAttention_call_empty_sequence:
  "MultiHeadAttention_call mha_notebook mha_notebook_params (zeros [1, 0, 64]) = Inl ReshapeError"
  by (rule MultiHeadAttention_call_empty[of _ 1 0 64, OF _ _ mha_notebook_ok]) simp_all

text \<open>
  C2. The multi-head forward call is not the composition of its steps for every input:
  on an empty batch, an input of shape \<open>(0, 5, 64)\<close>, the notebook's module raises in the
  reshape that merges the heads and returns neither an output nor attention weights.
\<close>

theorem MultiHeadAttention_call_empty_batch:
  "MultiHeadAttention_call mha_notebook mha_notebook_params (zeros [0, 5, 64]) = Inl ReshapeError"
  by (rule MultiHeadAttention_call_empty[of _ 0 5 64, OF _ _ mha_notebook_ok]) simp_all

text \<open>
  C4. The shapes of the results are not as stated for every input: on an input of shape
  \<open>(2, 0, 64)\<close> the single-head call of the notebook's module returns an output of shape
  \<open>(2, 0, 32)\<close> and attention weights of shape \<open>(2, 0, 0)\<close>, while the multi-head call
  raises and returns no tensor of shape \<open>(2, 0, 64)\<close> or \<open>(2, 4, 0, 0)\<close>.
\<close>

theorem forward_shapes_empty_sequence:
  "shape (fst (projr (SelfAttention_call sa_notebook sa_notebook_params (zeros [2, 0, 64]))))
     = [2, 0, 32]
   \<and> shape (snd (projr (SelfAttention_call sa_notebook sa_notebook_params (zeros [2, 0, 64]))))
     = [2, 0, 0]
   \<and> MultiHeadAttention_call mha_notebook mha_notebook_params (zeros [2, 0, 64]) = Inl ReshapeError"
proof -
  have "\<exists>out w. SelfAttention_call sa_notebook sa_notebook_params (zeros [2, 0, 64]) = Inr (out, w)
           \<and> shape out = [2, 0, 32] \<and> shape w = [2, 0, 0] \<and> data out = [] \<and> data w = []"
    by (rule SelfAttention_call_empty[of _ 2 64, OF _ sa_notebook_ok]) simp_all
  moreover have "MultiHeadAttention_call mha_notebook mha_notebook_params (zeros [2, 0, 64])
      = Inl ReshapeError"
    by (rule MultiHeadAttention_call_empty[of _ 2 0 64, OF _ _ mha_notebook_ok]) simp_all
  ultimately show ?thesis by auto
qed

section \<open>The field \<open>embed_dim\<close> of the single-head module\<close>

text \<open>
  C10. The single-head forward call does not read \<open>embed_dim\<close>: two modules that differ
  only in that field return the same result for every parameter set and input. In
  particular the call accepts every input of shape \<open>(B, S, D)\<close> whose last axis fits
  the parameters, for positive \<open>D\<close> and \<open>head_dim\<close>, whatever the configured \<open>embed_dim\<close>
  is.
\<close>

theorem SelfAttention_call_ignores_embed_dim:
  "SelfAttention_call (self\<lparr>sa_embed_dim := e\<rparr>) params x = SelfAttention_call self params x
   \<and> (shape x = [B, S, D] \<and> sa_params_ok self params D dk \<and> 0 < D \<and> 0 < dk \<longrightarrow>
        \<not> isl (SelfAttention_call (self\<lparr>sa_embed_dim := e\<rparr>) params x))"
proof (intro conjI impI)
  show eq: "SelfAttention_call (self\<lparr>sa_embed_dim := e\<rparr>) params x = SelfAttention_call self params x"
    by (simp add: SelfAttention_call_def)
  assume "shape x = [B, S, D] \<and> sa_params_ok self params D dk \<and> 0 < D \<and> 0 < dk"
  then have "\<not> isl (SelfAttention_call self params x)"
    using SelfAttention_call_accepts[of x B S D self params dk] by blast
  with eq show "\<not> isl (SelfAttention_call (self\<lparr>sa_embed_dim := e\<rparr>) params x)"
    by metis
qed

theorem SelfAttention_call_ignores_embed_dim_witness:
  "SelfAttention_call (sa_notebook\<lparr>sa_embed_dim := - 7\<rparr>) sa_notebook_params (zeros [1, 5, 64])
     = SelfAttention_call sa_notebook sa_notebook_params (zeros [1, 5, 64])
   \<and> shape (zeros [1, 5, 64]) = [1, 5, 64] \<and> sa_params_ok sa_notebook sa_notebook_params 64 32
   \<and> (0::nat) < 64 \<and> (0::nat) < 32
   \<and> \<not> isl (SelfAttention_call (sa_notebook\<lparr>sa_embed_dim := - 7\<rparr>) sa_notebook_params
             (zeros [1, 5, 64]))"
proof -
  note t = SelfAttention_call_ignores_embed_dim[where self = sa_notebook and e = "- 7"
      and params = sa_notebook_params and x = "zeros [1, 5, 64]" and B = 1 and S = 5 and D = 64
      and dk = 32]
  have s: "shape (zeros [1, 5, 64]) = [1, 5, 64]" by simp
  have a: "SelfAttention_call (sa_notebook\<lparr>sa_embed_dim := - 7\<rparr>) sa_notebook_params (zeros [1, 5, 64])
     = SelfAttention_call sa_notebook sa_notebook_params (zeros [1, 5, 64])"
    by (rule t[THEN conjunct1])
  have b: "\<not> isl (SelfAttention_call (sa_notebook\<lparr>sa_embed_dim := - 7\<rparr>) sa_notebook_params
             (zeros [1, 5, 64]))"
    using t[THEN conjunct2] s sa_notebook_ok by simp
  show ?thesis
    by (intro conjI a b s sa_notebook_ok) simp_all
qed



end
